theory Spec2Isabelle
  imports Main "HOL-Library.Word"
begin

unbundle bit_operations_syntax

section \<open>The image manager cache of pkg/kubelet/images/state.go\<close>

text \<open>
  The theory embeds the functions of \<^verbatim>\<open>state.go\<close> as HOL functions over an explicit
  state: the \<^verbatim>\<open>imageManagerCache\<close> struct paired with the file system it reads and
  writes. Go's \<^verbatim>\<open>error\<close> results are \<open>error option\<close> (\<open>None\<close> is \<^verbatim>\<open>nil\<close>), pointers
  that may be \<^verbatim>\<open>nil\<close> are options, and a call either returns, blocks for ever on a
  mutex, or panics.
\<close>

subsection \<open>Data\<close>

text \<open>
  \<^verbatim>\<open>EnsuredInfo\<close>: \<^verbatim>\<open>LastEnsuredDate\<close> is a \<^verbatim>\<open>time.Time\<close>, here an instant in
  nanoseconds; a \<^verbatim>\<open>time.Duration\<close> is a number of nanoseconds too.
\<close>

record EnsuredInfo =
  Ensured :: bool
  LastEnsuredDate :: int

text \<open>
  \<^verbatim>\<open>ImagePullInfo\<close>: \<^verbatim>\<open>Auths\<close> is a \<^verbatim>\<open>map[string]*EnsuredInfo\<close>, so a key that is
  present may hold the \<^verbatim>\<open>nil\<close> pointer (\<open>Some None\<close>). No function of the file writes
  through an \<^verbatim>\<open>*EnsuredInfo\<close>, so the pointers are modelled by their values. The
  record's own \<^verbatim>\<open>mux\<close> is taken and released inside \<^verbatim>\<open>getAuthInfo\<close> and
  \<^verbatim>\<open>deleteAuthInfo\<close> with no call in between, so it is free whenever a function of
  the file is entered by a single caller; it is not a field of the model.
\<close>

record ImagePullInfo =
  Auths :: "string \<rightharpoonup> EnsuredInfo option"

text \<open>
  \<^verbatim>\<open>imageManagerCache\<close>: \<open>lock\<close> is whether the \<^verbatim>\<open>sync.RWMutex\<close> is held (the file
  only ever takes it with \<^verbatim>\<open>Lock\<close>, never \<^verbatim>\<open>RLock\<close>); \<open>cache\<close> is the
  \<^verbatim>\<open>ImagePullCacheMap\<close>, \<open>None\<close> for the \<^verbatim>\<open>nil\<close> map.
\<close>

record imageManagerCache =
  lock :: bool
  cache :: "(string \<rightharpoonup> ImagePullInfo) option"
  imageStateManagerPath :: string

subsection \<open>The operating system and the libraries\<close>

datatype error =
  ErrNotExist | ErrPermission | ErrIO | ErrSyntax | ErrIsDir | ErrNotDir | ErrNotEmpty

definition os_IsNotExist :: "error \<Rightarrow> bool" where
  "os_IsNotExist err = (err = ErrNotExist)"

text \<open>
  What a path names is a regular file, with its content and its permission bits (an
  \<^verbatim>\<open>os.FileMode\<close> is a \<^verbatim>\<open>uint32\<close>), or a directory. A file system is the list of the
  paths that exist with what they name, the \<^verbatim>\<open>umask\<close> of the process, and \<open>fails\<close>:
  the failures (permissions, a full disk, ...) that a call of an operation on a path
  meets whatever the files are.
\<close>

datatype fnode = File string "32 word" | Dir

datatype fsop = OpStat | OpReadFile | OpWriteFile | OpRemove

record filesys =
  files :: "(string \<times> fnode) list"
  fails :: "fsop \<Rightarrow> string \<Rightarrow> error option"
  umask :: "32 word"

text \<open>The directory that holds a path: the path up to its last slash.\<close>

definition parent :: "string \<Rightarrow> string" where
  "parent path = rev (tl (dropWhile (\<lambda>c. c \<noteq> CHR ''/'') (rev path)))"

definition os_Stat :: "string \<Rightarrow> filesys \<Rightarrow> error option" where
  "os_Stat path fs =
     (case fails fs OpStat path of
        Some err \<Rightarrow> Some err
      | None \<Rightarrow> (case map_of (files fs) path of None \<Rightarrow> Some ErrNotExist | Some n \<Rightarrow> None))"

definition os_ReadFile :: "string \<Rightarrow> filesys \<Rightarrow> error + string" where
  "os_ReadFile path fs =
     (case fails fs OpReadFile path of
        Some err \<Rightarrow> Inl err
      | None \<Rightarrow>
          (case map_of (files fs) path of
             None \<Rightarrow> Inl ErrNotExist
           | Some (File byteData mode) \<Rightarrow> Inr byteData
           | Some Dir \<Rightarrow> Inl ErrIsDir))"

text \<open>
  \<^verbatim>\<open>os.WriteFile(name, data, perm)\<close>: a file that exists is truncated and written,
  without changing its permissions; a file that does not exist is created in its
  directory, which must be there, with \<^verbatim>\<open>perm\<close> less the bits of the \<^verbatim>\<open>umask\<close>.
\<close>

definition os_WriteFile ::
  "string \<Rightarrow> string \<Rightarrow> 32 word \<Rightarrow> filesys \<Rightarrow> error option \<times> filesys" where
  "os_WriteFile path byteData mode fs =
     (case fails fs OpWriteFile path of
        Some err \<Rightarrow> (Some err, fs)
      | None \<Rightarrow>
          (case map_of (files fs) path of
             Some (File old m) \<Rightarrow>
               (None, fs\<lparr>files := (path, File byteData m) # filter (\<lambda>e. fst e \<noteq> path) (files fs)\<rparr>)
           | Some Dir \<Rightarrow> (Some ErrIsDir, fs)
           | None \<Rightarrow>
               (case map_of (files fs) (parent path) of
                  Some Dir \<Rightarrow>
                    (None, fs\<lparr>files := (path, File byteData (mode AND NOT (umask fs))) # files fs\<rparr>)
                | Some (File old m) \<Rightarrow> (Some ErrNotDir, fs)
                | None \<Rightarrow> (Some ErrNotExist, fs))))"

text \<open>
  \<^verbatim>\<open>os.Remove(name)\<close> removes the named file or the named directory when it is empty;
  a directory that holds an entry is left, with an error.
\<close>

definition os_Remove :: "string \<Rightarrow> filesys \<Rightarrow> error option \<times> filesys" where
  "os_Remove path fs =
     (case fails fs OpRemove path of
        Some err \<Rightarrow> (Some err, fs)
      | None \<Rightarrow>
          (case map_of (files fs) path of
             None \<Rightarrow> (Some ErrNotExist, fs)
           | Some (File byteData mode) \<Rightarrow>
               (None, fs\<lparr>files := filter (\<lambda>e. fst e \<noteq> path) (files fs)\<rparr>)
           | Some Dir \<Rightarrow>
               if list_ex (\<lambda>e. parent (fst e) = path) (files fs) then (Some ErrNotEmpty, fs)
               else (None, fs\<lparr>files := filter (\<lambda>e. fst e \<noteq> path) (files fs)\<rparr>)))"


definition mode_0644 :: "32 word" where
  "mode_0644 = 6 * 64 + 4 * 8 + 4"

definition umask_022 :: "32 word" where
  "umask_022 = 2 * 8 + 2"


text \<open>
  \<^verbatim>\<open>filepath.Join\<close>, \<^verbatim>\<open>utiljson.Marshal\<close> and \<^verbatim>\<open>utiljson.Unmarshal\<close> are library
  functions outside the repository: the embedding takes them as parameters.
\<close>

record lib =
  Join :: "string \<Rightarrow> string \<Rightarrow> string"
  Marshal :: "ImagePullInfo \<Rightarrow> error + string"
  Unmarshal :: "string \<Rightarrow> error + ImagePullInfo"

subsection \<open>Calls, the mutex and \<^verbatim>\<open>defer\<close>\<close>

text \<open>
  A call returns (\<open>Done\<close>), or never returns because it waits for a mutex that nobody
  will release (\<open>Blocked\<close>), or panics (\<open>Panic\<close>: an assignment to an entry of a
  \<^verbatim>\<open>nil\<close> map, a \<^verbatim>\<open>nil\<close> dereference, an \<^verbatim>\<open>Unlock\<close> of a mutex that is not held).
\<close>

datatype 'a outcome = Done 'a | Blocked | Panic

type_synonym world = "imageManagerCache \<times> filesys"

definition andThen :: "'a outcome \<Rightarrow> ('a \<Rightarrow> 'b outcome) \<Rightarrow> 'b outcome" where
  "andThen r k = (case r of Done x \<Rightarrow> k x | Blocked \<Rightarrow> Blocked | Panic \<Rightarrow> Panic)"

text \<open>
  \<^verbatim>\<open>c.lock.Lock()\<close>: a \<^verbatim>\<open>sync.RWMutex\<close> is not reentrant. \<^verbatim>\<open>Lock\<close> on a mutex that is
  held waits until it is released, also when the holder is the caller itself.
\<close>

definition Lock :: "world \<Rightarrow> world outcome" where
  "Lock w = (if lock (fst w) then Blocked else Done ((fst w)\<lparr>lock := True\<rparr>, snd w))"

definition Unlock :: "world \<Rightarrow> world outcome" where
  "Unlock w = (if lock (fst w) then Done ((fst w)\<lparr>lock := False\<rparr>, snd w) else Panic)"

text \<open>\<^verbatim>\<open>defer c.lock.Unlock()\<close>: the mutex is released when the body has returned.\<close>

definition deferUnlock :: "('a \<times> world) outcome \<Rightarrow> ('a \<times> world) outcome" where
  "deferUnlock r = andThen r (\<lambda>(x, w). andThen (Unlock w) (\<lambda>w'. Done (x, w')))"

subsection \<open>The reader\<close>

definition loadImageManagerCache :: "lib \<Rightarrow> string \<Rightarrow> world \<Rightarrow> (error option \<times> world) outcome" where
  "loadImageManagerCache L imageRef w =
     (let path = Join L (imageStateManagerPath (fst w)) imageRef in
      case os_Stat path (snd w) of
        Some err \<Rightarrow> (if os_IsNotExist err then Done (None, w) else Done (Some err, w))
      | None \<Rightarrow>
          if imageRef = [] then Done (None, w)
          else andThen (Lock w) (\<lambda>w1. deferUnlock
            (case os_ReadFile path (snd w1) of
               Inl err \<Rightarrow> Done (Some err, w1)
             | Inr byteData \<Rightarrow>
                 (case Unmarshal L byteData of
                    Inl err \<Rightarrow> Done (Some err, w1)
                  | Inr info \<Rightarrow>
                      (case cache (fst w1) of
                         None \<Rightarrow> Panic
                       | Some m \<Rightarrow>
                           Done (None, ((fst w1)\<lparr>cache := Some (m(imageRef \<mapsto> info))\<rparr>, snd w1)))))))"

text \<open>
  \<^verbatim>\<open>getImagePullInfo\<close> calls \<^verbatim>\<open>loadImageManagerCache\<close> while it holds the lock, and
  drops the error that the call returns.
\<close>

definition getImagePullInfo :: "lib \<Rightarrow> string \<Rightarrow> world \<Rightarrow> (ImagePullInfo option \<times> world) outcome" where
  "getImagePullInfo L imageRef w =
     andThen (Lock w) (\<lambda>w1. deferUnlock
       (andThen (loadImageManagerCache L imageRef w1) (\<lambda>(err, w2).
          case cache (fst w2) of
            None \<Rightarrow> Done (None, w2)
          | Some m \<Rightarrow> (case m imageRef of Some info \<Rightarrow> Done (Some info, w2) | None \<Rightarrow> Done (None, w2)))))"

definition getAuthInfo :: "lib \<Rightarrow> string \<Rightarrow> string \<Rightarrow> world \<Rightarrow> (EnsuredInfo option \<times> world) outcome" where
  "getAuthInfo L imageRef hash w =
     andThen (getImagePullInfo L imageRef w) (\<lambda>(pullInfo, w1).
       case pullInfo of
         None \<Rightarrow> Done (None, w1)
       | Some info \<Rightarrow>
           andThen (Lock w1) (\<lambda>w2. deferUnlock
             (case cache (fst w2) of
                None \<Rightarrow> Panic
              | Some m \<Rightarrow>
                  (case m imageRef of
                     None \<Rightarrow> Panic
                   | Some cur \<Rightarrow>
                       (case Auths info hash of
                          Some p \<Rightarrow> Done (case Auths cur hash of Some q \<Rightarrow> q | None \<Rightarrow> None, w2)
                        | None \<Rightarrow> Done (None, w2))))))"

subsection \<open>The writer\<close>

text \<open>
  Lines 186 to 199 of \<^verbatim>\<open>storeImageManagerCache\<close>, what the function does with the
  record that \<^verbatim>\<open>getImagePullInfo\<close> returned: the file is written with mode
  \<^verbatim>\<open>0644\<close>.
\<close>

definition storeImageManagerCache_write ::
  "lib \<Rightarrow> string \<Rightarrow> ImagePullInfo option \<Rightarrow> world \<Rightarrow> (error option \<times> world) outcome" where
  "storeImageManagerCache_write L imageRef info w =
     (case info of
        None \<Rightarrow> Done (None, w)
      | Some i \<Rightarrow>
          if imageRef = [] then Done (None, w)
          else
            (case Marshal L i of
               Inl err \<Rightarrow> Done (Some err, w)
             | Inr byteData \<Rightarrow>
                 (let path = Join L (imageStateManagerPath (fst w)) imageRef in
                  case os_WriteFile path byteData mode_0644 (snd w) of
                    (Some err, fs) \<Rightarrow> Done (Some err, (fst w, fs))
                  | (None, fs) \<Rightarrow> Done (None, (fst w, fs)))))"

definition storeImageManagerCache :: "lib \<Rightarrow> string \<Rightarrow> world \<Rightarrow> (error option \<times> world) outcome" where
  "storeImageManagerCache L imageRef w =
     andThen (Lock w) (\<lambda>w1. deferUnlock
       (andThen (getImagePullInfo L imageRef w1) (\<lambda>(info, w2).
          storeImageManagerCache_write L imageRef info w2)))"

definition setImagePullInfo ::
  "lib \<Rightarrow> string \<Rightarrow> string \<Rightarrow> EnsuredInfo option \<Rightarrow> world \<Rightarrow> (error option \<times> world) outcome" where
  "setImagePullInfo L imageRef hash data w =
     andThen (Lock w) (\<lambda>w1. deferUnlock
       (let m = (case cache (fst w1) of None \<Rightarrow> Map.empty | Some m0 \<Rightarrow> m0);
            authInfo = Map.empty(hash \<mapsto> data)
        in storeImageManagerCache L imageRef
             ((fst w1)\<lparr>cache := Some (m(imageRef \<mapsto> \<lparr>Auths = authInfo\<rparr>))\<rparr>, snd w1)))"

definition deleteImagePullInfo :: "lib \<Rightarrow> string \<Rightarrow> world \<Rightarrow> (error option \<times> world) outcome" where
  "deleteImagePullInfo L imageRef w =
     andThen (Lock w) (\<lambda>w1. deferUnlock
       (let c1 = (case cache (fst w1) of
                    None \<Rightarrow> fst w1
                  | Some m \<Rightarrow> (fst w1)\<lparr>cache := Some (m(imageRef := None))\<rparr>)
        in case os_Remove (Join L (imageStateManagerPath c1) imageRef) (snd w1) of
             (Some err, fs) \<Rightarrow> Done (Some err, (c1, fs))
           | (None, fs) \<Rightarrow> Done (None, (c1, fs))))"

definition setAuthInfo ::
  "string \<Rightarrow> string \<Rightarrow> EnsuredInfo option \<Rightarrow> world \<Rightarrow> (unit \<times> world) outcome" where
  "setAuthInfo imageRef hash data w =
     (let m = (case cache (fst w) of None \<Rightarrow> Map.empty | Some m0 \<Rightarrow> m0);
          auth = Map.empty(hash \<mapsto> data)
      in andThen (Lock ((fst w)\<lparr>cache := Some m\<rparr>, snd w)) (\<lambda>w1.
           andThen (Unlock ((fst w1)\<lparr>cache := Some (m(imageRef \<mapsto> \<lparr>Auths = auth\<rparr>))\<rparr>, snd w1))
             (\<lambda>w2. Done ((), w2))))"

definition deleteAuthInfo :: "string \<Rightarrow> string \<Rightarrow> world \<Rightarrow> (unit \<times> world) outcome" where
  "deleteAuthInfo imageRef hash w =
     andThen (Lock w) (\<lambda>w1. deferUnlock
       (case cache (fst w1) of
          None \<Rightarrow> Done ((), w1)
        | Some m \<Rightarrow>
            (case m imageRef of
               None \<Rightarrow> Done ((), w1)
             | Some info \<Rightarrow>
                 (case Auths info hash of
                    None \<Rightarrow> Done ((), w1)
                  | Some p \<Rightarrow>
                      Done ((), ((fst w1)\<lparr>cache :=
                        Some (m(imageRef \<mapsto> info\<lparr>Auths := (Auths info)(hash := None)\<rparr>))\<rparr>, snd w1))))))"

text \<open>
  \<^verbatim>\<open>refreshImageManagerCache\<close>. The mutex it takes is a local variable of its own, so
  taking it never waits and guards nothing; it is left out. Go leaves the order of a
  \<^verbatim>\<open>range\<close> over a map open: the order of the image references is the parameter
  \<open>ks\<close>, the order of the hashes of an image reference \<open>k\<close> is \<open>hs k\<close>, and a listed
  key that the map does not hold is passed over. The body of the loops only assigns to
  the key it is at and only deletes the hash it is at, so ranging over the record
  \<open>v\<close> as it was when the outer loop reached \<open>k\<close> visits the keys the Go loop visits.
  \<open>now\<close> is what \<^verbatim>\<open>time.Now()\<close> returns.
\<close>

fun refresh_auths ::
  "lib \<Rightarrow> int \<Rightarrow> int \<Rightarrow> string \<Rightarrow> ImagePullInfo \<Rightarrow> string list \<Rightarrow> world \<Rightarrow> (error option \<times> world) outcome" where
  "refresh_auths L recheckPeriod now k v [] w = Done (None, w)"
| "refresh_auths L recheckPeriod now k v (i # rest) w =
     (case Auths v i of
        None \<Rightarrow> refresh_auths L recheckPeriod now k v rest w
      | Some auth \<Rightarrow>
          andThen
            (case auth of
               None \<Rightarrow> Done ((), w)
             | Some a \<Rightarrow>
                 if LastEnsuredDate a + recheckPeriod < now then deleteAuthInfo k i w
                 else Done ((), w))
            (\<lambda>(u, w1).
               andThen (setImagePullInfo L k i auth w1) (\<lambda>(err, w2).
                 case err of
                   Some e \<Rightarrow> Done (Some e, w2)
                 | None \<Rightarrow> refresh_auths L recheckPeriod now k v rest w2)))"

fun refresh_records ::
  "lib \<Rightarrow> int \<Rightarrow> int \<Rightarrow> (string \<Rightarrow> string list) \<Rightarrow> string list \<Rightarrow> world \<Rightarrow> (error option \<times> world) outcome" where
  "refresh_records L recheckPeriod now hs [] w = Done (None, w)"
| "refresh_records L recheckPeriod now hs (k # rest) w =
     (case cache (fst w) of
        None \<Rightarrow> refresh_records L recheckPeriod now hs rest w
      | Some m \<Rightarrow>
          (case m k of
             None \<Rightarrow> refresh_records L recheckPeriod now hs rest w
           | Some v \<Rightarrow>
               andThen (refresh_auths L recheckPeriod now k v (hs k) w) (\<lambda>(err, w1).
                 case err of
                   Some e \<Rightarrow> Done (Some e, w1)
                 | None \<Rightarrow> refresh_records L recheckPeriod now hs rest w1)))"

definition refreshImageManagerCache ::
  "lib \<Rightarrow> bool \<Rightarrow> int \<Rightarrow> int \<Rightarrow> string list \<Rightarrow> (string \<Rightarrow> string list) \<Rightarrow> world \<Rightarrow> (error option \<times> world) outcome" where
  "refreshImageManagerCache L recheck recheckPeriod now ks hs w =
     (if recheck \<and> recheckPeriod = 0 then Done (None, w)
      else refresh_records L recheckPeriod now hs ks w)"

subsection \<open>Construction\<close>

definition imageManagerstateFileName :: string where
  "imageManagerstateFileName = ''image_state_manager''"

fun newImageManagerCache_load ::
  "lib \<Rightarrow> string list \<Rightarrow> world \<Rightarrow> (imageManagerCache option \<times> filesys) outcome" where
  "newImageManagerCache_load L [] w = Done (Some (fst w), snd w)"
| "newImageManagerCache_load L (imageRef # rest) w =
     andThen (loadImageManagerCache L imageRef w) (\<lambda>(err, w1).
       case err of
         Some e \<Rightarrow> Done (None, snd w1)
       | None \<Rightarrow> newImageManagerCache_load L rest w1)"

definition newImageManagerCache ::
  "lib \<Rightarrow> string \<Rightarrow> string list \<Rightarrow> filesys \<Rightarrow> (imageManagerCache option \<times> filesys) outcome" where
  "newImageManagerCache L rootDir imageRefs fs =
     newImageManagerCache_load L imageRefs
       (\<lparr>lock = False, cache = Some Map.empty,
         imageStateManagerPath = Join L rootDir imageManagerstateFileName\<rparr>, fs)"

subsection \<open>Concrete states\<close>

text \<open>
  The states that the concrete runs below start from. \<open>example_lib\<close> stands in for the
  libraries: it joins a clean directory and a file name with a slash, and its codec knows
  one document, the encoding of \<open>example_info\<close>.
\<close>

definition example_info :: ImagePullInfo where
  "example_info = \<lparr>Auths = [''hash2'' \<mapsto> Some \<lparr>Ensured = True, LastEnsuredDate = 7\<rparr>]\<rparr>"

definition example_lib :: lib where
  "example_lib =
     \<lparr>Join = (\<lambda>dir name. if name = [] then dir else dir @ ''/'' @ name),
      Marshal = (\<lambda>info. Inr ''{auths}''),
      Unmarshal = (\<lambda>byteData. if byteData = ''{auths}'' then Inr example_info else Inl ErrSyntax)\<rparr>"

text \<open>A cache that holds one record for \<^verbatim>\<open>img-a\<close>, ensured with \<^verbatim>\<open>hash1\<close> at instant 80.\<close>

definition example_cache :: imageManagerCache where
  "example_cache =
     \<lparr>lock = False,
      cache = Some [''img-a'' \<mapsto> \<lparr>Auths = [''hash1'' \<mapsto> Some \<lparr>Ensured = True, LastEnsuredDate = 80\<rparr>]\<rparr>],
      imageStateManagerPath = ''/k/image_state_manager''\<rparr>"

definition no_failures :: "fsop \<Rightarrow> string \<Rightarrow> error option" where
  "no_failures operation path = None"

text \<open>A disk where the cache directory is there and holds no file.\<close>

definition empty_disk :: filesys where
  "empty_disk =
     \<lparr>files = [(''/k/image_state_manager'', Dir), (''/k'', Dir)],
      fails = no_failures, umask = umask_022\<rparr>"

text \<open>A disk with a well-formed file for \<^verbatim>\<open>img-a\<close>, and one where the file is not JSON.\<close>

definition good_disk :: filesys where
  "good_disk =
     \<lparr>files = [(''/k/image_state_manager/img-a'', File ''{auths}'' mode_0644),
               (''/k/image_state_manager'', Dir), (''/k'', Dir)],
      fails = no_failures, umask = umask_022\<rparr>"

definition bad_disk :: filesys where
  "bad_disk =
     \<lparr>files = [(''/k/image_state_manager/img-a'', File ''not json'' mode_0644),
               (''/k/image_state_manager'', Dir), (''/k'', Dir)],
      fails = no_failures, umask = umask_022\<rparr>"

text \<open>
  A disk where every \<^verbatim>\<open>os.Stat\<close> is refused, one where every \<^verbatim>\<open>os.Remove\<close> is, and
  the empty cache directory under the mask \<^verbatim>\<open>077\<close>.
\<close>

definition no_stat_disk :: filesys where
  "no_stat_disk =
     \<lparr>files = [(''/k/image_state_manager'', Dir), (''/k'', Dir)],
      fails = (\<lambda>operation path. if operation = OpStat then Some ErrPermission else None),
      umask = umask_022\<rparr>"



section \<open>Basic facts\<close>

lemma andThen_simps [simp]:
  "andThen (Done x) k = k x"
  "andThen Blocked k = Blocked"
  "andThen Panic k = Panic"
  by (simp_all add: andThen_def)

lemma Lock_held: "lock (fst w) \<Longrightarrow> Lock w = Blocked"
  by (simp add: Lock_def)

lemma Lock_free: "\<not> lock (fst w) \<Longrightarrow> Lock w = Done ((fst w)\<lparr>lock := True\<rparr>, snd w)"
  by (simp add: Lock_def)

lemma deferUnlock_simps [simp]:
  "deferUnlock Blocked = Blocked"
  "deferUnlock Panic = Panic"
  "lock c \<Longrightarrow> deferUnlock (Done (x, (c, fs))) = Done (x, (c\<lparr>lock := False\<rparr>, fs))"
  by (simp_all add: deferUnlock_def Unlock_def)

lemma unlocked_idem: "\<not> lock c \<Longrightarrow> c\<lparr>lock := False\<rparr> = c"
  by (cases c) simp

subsection \<open>The lock is taken twice\<close>

text \<open>
  \<^verbatim>\<open>getImagePullInfo\<close> starts with \<^verbatim>\<open>c.lock.Lock()\<close>, so it waits for ever when the
  lock is held. \<^verbatim>\<open>storeImageManagerCache\<close> takes the lock (line 182) and then calls
  \<^verbatim>\<open>getImagePullInfo\<close> (line 185): it never returns, whatever the state.
  \<^verbatim>\<open>setImagePullInfo\<close> takes the lock (line 131) and then calls
  \<^verbatim>\<open>storeImageManagerCache\<close> (line 139), so it never returns either.
\<close>

lemma getImagePullInfo_held: "lock (fst w) \<Longrightarrow> getImagePullInfo L r w = Blocked"
  by (simp add: getImagePullInfo_def Lock_held)

lemma storeImageManagerCache_blocks: "storeImageManagerCache L r w = Blocked"
proof (cases "lock (fst w)")
  case True
  then show ?thesis
    by (simp add: storeImageManagerCache_def Lock_held)
next
  case False
  then show ?thesis
    by (simp add: storeImageManagerCache_def Lock_free getImagePullInfo_held)
qed

lemma setImagePullInfo_blocks: "setImagePullInfo L r h e w = Blocked"
  by (cases "lock (fst w)")
     (simp_all add: setImagePullInfo_def Lock_held Lock_free storeImageManagerCache_blocks Let_def)

subsection \<open>\<^verbatim>\<open>loadImageManagerCache\<close> and \<^verbatim>\<open>getImagePullInfo\<close> when the lock is free\<close>

lemma load_unlocked:
  assumes "\<not> lock c" and "r \<noteq> []" and "cache c = Some m"
  shows "loadImageManagerCache L r (c, fs) =
     (case os_Stat (Join L (imageStateManagerPath c) r) fs of
        Some err \<Rightarrow> Done (if os_IsNotExist err then None else Some err, (c, fs))
      | None \<Rightarrow>
          (case os_ReadFile (Join L (imageStateManagerPath c) r) fs of
             Inl err \<Rightarrow> Done (Some err, (c, fs))
           | Inr byteData \<Rightarrow>
               (case Unmarshal L byteData of
                  Inl err \<Rightarrow> Done (Some err, (c, fs))
                | Inr info \<Rightarrow> Done (None, (c\<lparr>cache := Some (m(r \<mapsto> info))\<rparr>, fs)))))"
  using assms
  by (simp add: loadImageManagerCache_def Lock_free unlocked_idem
        split: option.splits sum.splits)

text \<open>
  Inside \<^verbatim>\<open>getImagePullInfo\<close> the lock is held, so \<^verbatim>\<open>loadImageManagerCache\<close>
  returns only when it does not get as far as its own \<^verbatim>\<open>c.lock.Lock()\<close> (line 216).
\<close>

lemma load_locked:
  assumes "lock c"
  shows "loadImageManagerCache L r (c, fs) =
     (case os_Stat (Join L (imageStateManagerPath c) r) fs of
        Some err \<Rightarrow> Done (if os_IsNotExist err then None else Some err, (c, fs))
      | None \<Rightarrow> if r = [] then Done (None, (c, fs)) else Blocked)"
  using assms
  by (simp add: loadImageManagerCache_def Lock_held split: option.splits)

lemma getImagePullInfo_unlocked:
  assumes "\<not> lock c"
  shows "getImagePullInfo L r (c, fs) =
     (if os_Stat (Join L (imageStateManagerPath c) r) fs = None \<and> r \<noteq> [] then Blocked
      else Done (case cache c of None \<Rightarrow> None | Some m \<Rightarrow> m r, (c, fs)))"
  using assms
  by (simp add: getImagePullInfo_def Lock_free load_locked unlocked_idem
        split: option.splits)

text \<open>
  With the lock free and the map allocated, \<^verbatim>\<open>loadImageManagerCache\<close> always returns,
  and changes at most the map. So \<^verbatim>\<open>newImageManagerCache\<close> gets to every image
  reference of its list unless an earlier one has made it return \<^verbatim>\<open>nil\<close>.
\<close>

lemma load_returns:
  assumes "\<not> lock c" and "cache c = Some m"
  shows "\<exists>e m'. loadImageManagerCache L x (c, fs) = Done (e, (c\<lparr>cache := Some m'\<rparr>, fs))"
proof -
  have same: "c\<lparr>cache := Some m\<rparr> = c"
    using assms(2) by (cases c) simp
  show ?thesis
  proof (cases "x = []")
    case True
    have "\<exists>e. loadImageManagerCache L x (c, fs) = Done (e, (c, fs))"
      using True by (simp add: loadImageManagerCache_def Let_def split: option.splits)
    with same show ?thesis by metis
  next
    case False
    have "(\<exists>e. loadImageManagerCache L x (c, fs) = Done (e, (c, fs)))
        \<or> (\<exists>info. loadImageManagerCache L x (c, fs)
              = Done (None, (c\<lparr>cache := Some (m(x \<mapsto> info))\<rparr>, fs)))"
      using load_unlocked [OF assms(1) False assms(2), of L fs]
      by (auto split: option.splits sum.splits)
    with same show ?thesis by metis
  qed
qed

lemma newImageManagerCache_load_bad:
  assumes "r \<in> set imageRefs" and "r \<noteq> []" and "\<not> lock c" and "cache c = Some m"
    and "os_Stat (Join L (imageStateManagerPath c) r) fs = None"
    and "os_ReadFile (Join L (imageStateManagerPath c) r) fs = Inr byteData"
    and "Unmarshal L byteData = Inl err"
  shows "newImageManagerCache_load L imageRefs (c, fs) = Done (None, fs)"
  using assms
proof (induction imageRefs arbitrary: c m)
  case Nil
  then show ?case by simp
next
  case (Cons x rest)
  show ?case
  proof (cases "x = r")
    case True
    have "loadImageManagerCache L r (c, fs) = Done (Some err, (c, fs))"
      using Cons.prems by (simp add: load_unlocked)
    with True show ?thesis by simp
  next
    case False
    with Cons.prems have inrest: "r \<in> set rest" by simp
    obtain e m' where ld: "loadImageManagerCache L x (c, fs) = Done (e, (c\<lparr>cache := Some m'\<rparr>, fs))"
      using load_returns [OF Cons.prems(3,4)] by blast
    show ?thesis
    proof (cases e)
      case None
      have "newImageManagerCache_load L rest (c\<lparr>cache := Some m'\<rparr>, fs) = Done (None, fs)"
        using Cons.IH [of "c\<lparr>cache := Some m'\<rparr>" m'] inrest Cons.prems by simp
      with ld None show ?thesis by simp
    next
      case (Some e')
      with ld show ?thesis by simp
    qed
  qed
qed

subsection \<open>The sweep\<close>

lemma deleteAuthInfo_cases:
  "deleteAuthInfo k i w = Blocked \<or> (\<exists>w1. deleteAuthInfo k i w = Done ((), w1))"
  by (cases "lock (fst w)")
     (auto simp: deleteAuthInfo_def Lock_held Lock_free split: option.splits)

text \<open>
  The sweep calls \<^verbatim>\<open>setImagePullInfo\<close> for every hash entry it comes to (line 251),
  stale or not: it returns only when it comes to none.
\<close>

lemma refresh_auths_char:
  "refresh_auths L P now k v xs w =
     (if \<exists>i \<in> set xs. Auths v i \<noteq> None then Blocked else Done (None, w))"
proof (induction xs)
  case Nil
  then show ?case by simp
next
  case (Cons i rest)
  show ?case
  proof (cases "Auths v i")
    case None
    with Cons show ?thesis by simp
  next
    case (Some auth)
    define X where "X = (case auth of
        None \<Rightarrow> Done ((), w)
      | Some a \<Rightarrow> if LastEnsuredDate a + P < now then deleteAuthInfo k i w else Done ((), w))"
    have "X = Blocked \<or> (\<exists>w1. X = Done ((), w1))"
      unfolding X_def using deleteAuthInfo_cases [of k i w] by (auto split: option.splits)
    then have "andThen X (\<lambda>(u, w1). andThen (setImagePullInfo L k i auth w1) K) = Blocked" for K
      by (auto simp: setImagePullInfo_blocks)
    then show ?thesis using Some by (simp add: X_def)
  qed
qed

lemma refresh_records_char:
  "refresh_records L P now hs ks w =
     (if \<exists>k \<in> set ks. \<exists>m v. cache (fst w) = Some m \<and> m k = Some v \<and>
           (\<exists>i \<in> set (hs k). Auths v i \<noteq> None)
      then Blocked else Done (None, w))"
proof (induction ks)
  case Nil
  then show ?case by simp
next
  case (Cons k rest)
  then show ?case
    by (auto simp: refresh_auths_char split: option.splits)
qed

section \<open>The claims\<close>

text \<open>
  C1. Claimed: a sweep with \<^verbatim>\<open>recheck = true\<close> and a period \<open>P \<noteq> 0\<close> deletes exactly
  the stale hash entries and persists the records. On the code the sweep does not get
  that far: as soon as it comes to a hash entry, stale or fresh, it calls
  \<^verbatim>\<open>setImagePullInfo\<close>, which waits for a lock that it holds itself. So for every
  cache that holds a hash entry the sweep never returns, and nothing is persisted.
  The call at line 251 is also given the entry that \<^verbatim>\<open>deleteAuthInfo\<close> has just
  removed, stale as it is.
\<close>

theorem refreshImageManagerCache_blocks:
  assumes "cache (fst w) = Some m" and "m k = Some v" and "Auths v i = Some auth"
    and "k \<in> set ks" and "i \<in> set (hs k)" and "P \<noteq> 0"
  shows "refreshImageManagerCache L True P now ks hs w = Blocked"
proof -
  have "\<exists>k \<in> set ks. \<exists>m v. cache (fst w) = Some m \<and> m k = Some v \<and>
          (\<exists>i \<in> set (hs k). Auths v i \<noteq> None)"
    using assms by (intro bexI [of _ k]) auto
  then have "refresh_records L P now hs ks w = Blocked"
    by (simp only: refresh_records_char if_True)
  with \<open>P \<noteq> 0\<close> show ?thesis
    by (simp add: refreshImageManagerCache_def)
qed

text \<open>
  The run of the claim's example: period 10, now 100, one entry ensured at 80, which is
  now minus twice the period.
\<close>

theorem refreshImageManagerCache_blocks_witness:
  "Auths \<lparr>Auths = [''hash1'' \<mapsto> Some \<lparr>Ensured = True, LastEnsuredDate = 80\<rparr>]\<rparr> ''hash1''
     = Some (Some \<lparr>Ensured = True, LastEnsuredDate = 80\<rparr>)
   \<and> refreshImageManagerCache example_lib True 10 100 [''img-a''] (\<lambda>k. [''hash1''])
       (example_cache, empty_disk) = Blocked"
  using refreshImageManagerCache_blocks
    [of "(example_cache, empty_disk)"
        "[''img-a'' \<mapsto> \<lparr>Auths = [''hash1'' \<mapsto> Some \<lparr>Ensured = True, LastEnsuredDate = 80\<rparr>]\<rparr>]"
        "''img-a''"
        "\<lparr>Auths = [''hash1'' \<mapsto> Some \<lparr>Ensured = True, LastEnsuredDate = 80\<rparr>]\<rparr>"
        "''hash1''" "Some \<lparr>Ensured = True, LastEnsuredDate = 80\<rparr>"
        "[''img-a'']" "\<lambda>k. [''hash1'']" 10 example_lib 100]
  by (simp add: example_cache_def)

text \<open>
  C2. Claimed: the sweep is a no-op when \<^verbatim>\<open>recheck\<close> is false, whatever the period, and
  when \<^verbatim>\<open>recheck\<close> is true and the period is zero. The guard of the code (line 236) is
  \<^verbatim>\<open>recheck && recheckPeriod.Duration == 0\<close>: with \<^verbatim>\<open>recheck = false\<close> the sweep is
  not skipped. On the cache with one entry it then never returns.
\<close>

theorem refreshImageManagerCache_recheck_false_counterexample:
  "refreshImageManagerCache example_lib False 10 100 [''img-a''] (\<lambda>k. [''hash1''])
     (example_cache, empty_disk) = Blocked
   \<and> refreshImageManagerCache example_lib False 10 100 [''img-a''] (\<lambda>k. [''hash1''])
     (example_cache, empty_disk) \<noteq> Done (None, (example_cache, empty_disk))"
  by (simp add: refreshImageManagerCache_def refresh_records_char example_cache_def)

text \<open>
  C2, amended: with \<^verbatim>\<open>recheck = true\<close> and a period of zero the sweep returns
  \<^verbatim>\<open>nil\<close> and leaves the cache and the disk as they were; with \<^verbatim>\<open>recheck = false\<close>
  the two loops run, whatever the period.
\<close>

theorem refreshImageManagerCache_zero_period:
  "refreshImageManagerCache L True 0 now ks hs w = Done (None, w)
   \<and> refreshImageManagerCache L False P now ks hs w = refresh_records L P now hs ks w"
  by (simp add: refreshImageManagerCache_def)

text \<open>
  C3. Claimed: \<^verbatim>\<open>setImagePullInfo(r, h, e)\<close> followed by \<^verbatim>\<open>getAuthInfo(r, h)\<close> returns
  \<open>e\<close>. On the code \<^verbatim>\<open>setImagePullInfo\<close> never returns, for any image reference, hash,
  entry and state, so the read that follows is never reached.
\<close>

theorem setImagePullInfo_then_getAuthInfo_blocks:
  "andThen (setImagePullInfo L r h e w) (\<lambda>(err, w1). getAuthInfo L r h w1) = Blocked"
  by (simp add: setImagePullInfo_blocks)

text \<open>
  C4. Claimed: after \<^verbatim>\<open>setImagePullInfo(r, h1, e1)\<close> and \<^verbatim>\<open>setImagePullInfo(r, h2, e2)\<close>
  the record of \<open>r\<close> holds \<open>h2\<close> only. On the code the first call never returns, so
  neither the second call nor the read is reached.
\<close>

theorem setImagePullInfo_twice_blocks:
  "andThen (setImagePullInfo L r h1 e1 w) (\<lambda>(err1, w1).
     andThen (setImagePullInfo L r h2 e2 w1) (\<lambda>(err2, w2).
       getAuthInfo L r h1 w2)) = Blocked"
  by (simp add: setImagePullInfo_blocks)

text \<open>
  C5. Claimed: \<^verbatim>\<open>deleteImagePullInfo(r)\<close> returns no error when \<open>r\<close> has no file on
  disk. The code returns every error of \<^verbatim>\<open>os.Remove\<close> (lines 149 to 152), the
  not-exist error too.
\<close>

theorem deleteImagePullInfo_missing_file_counterexample:
  "deleteImagePullInfo example_lib ''img-b'' (example_cache, empty_disk)
     = Done (Some ErrNotExist, (example_cache, empty_disk))"
proof -
  have "m(''img-b'' := None) = m"
    if "m = [''img-a'' \<mapsto> x]" for m :: "string \<rightharpoonup> ImagePullInfo" and x
    using that by (simp add: fun_upd_idem_iff)
  then show ?thesis
    by (simp add: deleteImagePullInfo_def Lock_free os_Remove_def Let_def
          example_cache_def example_lib_def empty_disk_def no_failures_def)
qed

text \<open>
  C5, amended: \<^verbatim>\<open>deleteImagePullInfo(r)\<close> removes \<open>r\<close> from the in-memory map and
  returns what \<^verbatim>\<open>os.Remove\<close> returns for the path of \<open>r\<close>, every error included. So
  when nothing exists at that path (for the empty image reference the path is the cache
  directory itself) and the removal is not refused for another reason, it leaves the
  disk as it was and returns the not-exist error; a second call returns the same error
  again.
\<close>

theorem deleteImagePullInfo_missing_file:
  assumes "\<not> lock c"
  shows "(let p = Join L (imageStateManagerPath c) r;
              c1 = c\<lparr>cache := map_option (\<lambda>m. m(r := None)) (cache c)\<rparr>
          in deleteImagePullInfo L r (c, fs)
               = Done (fst (os_Remove p fs), (c1, snd (os_Remove p fs)))
             \<and> (fails fs OpRemove p = None \<and> map_of (files fs) p = None \<longrightarrow>
                  deleteImagePullInfo L r (c, fs) = Done (Some ErrNotExist, (c1, fs))
                  \<and> deleteImagePullInfo L r (c1, fs) = Done (Some ErrNotExist, (c1, fs))))"
proof -
  define p where "p = Join L (imageStateManagerPath c) r"
  define c1 where "c1 = c\<lparr>cache := map_option (\<lambda>m. m(r := None)) (cache c)\<rparr>"
  have general: "deleteImagePullInfo L r (c', fs)
      = Done (fst (os_Remove p fs), (c1, snd (os_Remove p fs)))"
    if c': "\<not> lock c'" "imageStateManagerPath c' = imageStateManagerPath c"
      "c'\<lparr>cache := map_option (\<lambda>m. m(r := None)) (cache c')\<rparr> = c1" for c'
  proof -
    obtain e fs' where rm: "os_Remove p fs = (e, fs')"
      by (cases "os_Remove p fs")
    have free: "\<not> lock c1" and path: "imageStateManagerPath c1 = imageStateManagerPath c"
      using assms by (simp_all add: c1_def)
    show ?thesis
    proof (cases "cache c'")
      case None
      with c'(3) have "c' = c1"
        by (cases c') auto
      with None c'(1,2) rm free show ?thesis
        by (cases e)
           (simp_all add: deleteImagePullInfo_def Lock_free Let_def p_def unlocked_idem)
    next
      case (Some m)
      with c'(3) have "c'\<lparr>cache := Some (m(r := None))\<rparr> = c1"
        by simp
      then have "c'\<lparr>lock := True, cache := Some (m(r := None))\<rparr> = c1\<lparr>lock := True\<rparr>"
        by (cases c'; cases c1) auto
      with Some c'(1,2) rm free path show ?thesis
        by (cases e)
           (simp_all add: deleteImagePullInfo_def Lock_free Let_def p_def unlocked_idem)
    qed
  qed
  have of_c1: "c1\<lparr>cache := map_option (\<lambda>m. m(r := None)) (cache c1)\<rparr> = c1"
    by (cases "cache c") (simp_all add: c1_def)
  have absent: "os_Remove p fs = (Some ErrNotExist, fs)"
    if "fails fs OpRemove p = None \<and> map_of (files fs) p = None"
    using that by (simp add: os_Remove_def)
  show ?thesis
    unfolding Let_def p_def [symmetric] c1_def [symmetric]
    using general [of c] general [of c1] of_c1 absent assms
    by (simp add: c1_def)
qed

text \<open>
  Two runs: \<^verbatim>\<open>img-a\<close> on the disk where the cache directory holds no file, and the
  empty image reference on the disk where the cache directory holds a file.
\<close>

theorem deleteImagePullInfo_missing_file_witness:
  "\<not> lock example_cache
   \<and> map_of (files empty_disk) (Join example_lib (imageStateManagerPath example_cache) ''img-a'') = None
   \<and> deleteImagePullInfo example_lib ''img-a'' (example_cache, empty_disk)
       = Done (Some ErrNotExist, (example_cache\<lparr>cache := Some Map.empty\<rparr>, empty_disk))
   \<and> deleteImagePullInfo example_lib ''img-a'' (example_cache\<lparr>cache := Some Map.empty\<rparr>, empty_disk)
       = Done (Some ErrNotExist, (example_cache\<lparr>cache := Some Map.empty\<rparr>, empty_disk))
   \<and> deleteImagePullInfo example_lib [] (example_cache, good_disk)
       = Done (Some ErrNotEmpty,
           (example_cache\<lparr>cache := map_option (\<lambda>m. m([] := None)) (cache example_cache)\<rparr>, good_disk))"
  using deleteImagePullInfo_missing_file [of example_cache example_lib "''img-a''" empty_disk]
    deleteImagePullInfo_missing_file [of example_cache example_lib "[]" good_disk]
  by (simp add: example_cache_def example_lib_def empty_disk_def good_disk_def no_failures_def
        Let_def os_Remove_def parent_def)

text \<open>
  C6. Claimed: hydration leaves a record that is already in memory as it is, without
  reading the file again. \<^verbatim>\<open>loadImageManagerCache\<close> has no test for that: on a cache
  that holds \<^verbatim>\<open>img-a\<close> with \<^verbatim>\<open>hash1\<close> and a disk whose file for \<^verbatim>\<open>img-a\<close> holds
  \<^verbatim>\<open>hash2\<close>, it replaces the record by the one of the file. The hydration inside
  \<^verbatim>\<open>getImagePullInfo\<close> runs with the lock held, and there it never returns.
\<close>

theorem loadImageManagerCache_resident_counterexample:
  "cache example_cache \<noteq> Some [''img-a'' \<mapsto> example_info]
   \<and> loadImageManagerCache example_lib ''img-a'' (example_cache, good_disk)
       = Done (None, (example_cache\<lparr>cache := Some [''img-a'' \<mapsto> example_info]\<rparr>, good_disk))
   \<and> getImagePullInfo example_lib ''img-a'' (example_cache, good_disk) = Blocked"
proof (intro conjI)
  show "cache example_cache \<noteq> Some [''img-a'' \<mapsto> example_info]"
  proof
    assume "cache example_cache = Some [''img-a'' \<mapsto> example_info]"
    then have "[''img-a'' \<mapsto> \<lparr>Auths = [''hash1'' \<mapsto> Some \<lparr>Ensured = True, LastEnsuredDate = 80\<rparr>]\<rparr>]
        = [''img-a'' \<mapsto> example_info]"
      by (simp add: example_cache_def)
    then have "\<lparr>Auths = [''hash1'' \<mapsto> Some \<lparr>Ensured = True, LastEnsuredDate = 80\<rparr>]\<rparr> = example_info"
      by (rule map_upd_eqD1)
    then have "Auths \<lparr>Auths = [''hash1'' \<mapsto> Some \<lparr>Ensured = True, LastEnsuredDate = 80\<rparr>]\<rparr> ''hash1''
        = Auths example_info ''hash1''"
      by (rule arg_cong)
    then show False
      by (simp add: example_info_def)
  qed
next
  have "\<not> lock example_cache" "''img-a'' \<noteq> []"
    "cache example_cache
       = Some [''img-a'' \<mapsto> \<lparr>Auths = [''hash1'' \<mapsto> Some \<lparr>Ensured = True, LastEnsuredDate = 80\<rparr>]\<rparr>]"
    by (simp_all add: example_cache_def)
  from load_unlocked [OF this, of example_lib good_disk]
  show "loadImageManagerCache example_lib ''img-a'' (example_cache, good_disk)
       = Done (None, (example_cache\<lparr>cache := Some [''img-a'' \<mapsto> example_info]\<rparr>, good_disk))"
    by (simp add: example_cache_def example_lib_def good_disk_def no_failures_def
          os_Stat_def os_ReadFile_def)
next
  have "\<not> lock example_cache"
    by (simp add: example_cache_def)
  from getImagePullInfo_unlocked [OF this, of example_lib "''img-a''" good_disk]
  show "getImagePullInfo example_lib ''img-a'' (example_cache, good_disk) = Blocked"
    by (simp add: example_cache_def example_lib_def good_disk_def no_failures_def os_Stat_def)
qed

text \<open>
  C6, amended: for an image reference \<open>r\<close> that is in memory,
  \<^verbatim>\<open>loadImageManagerCache(r)\<close> looks at the disk all the same. It leaves the record
  as it is when the file does not exist, and when the stat, the read or the decoding
  fails (the last three return the error); when the file reads and decodes, the record
  in memory is replaced by the decoded one.
\<close>

theorem loadImageManagerCache_resident:
  assumes "cache c = Some m" and "m r = Some old" and "\<not> lock c" and "r \<noteq> []"
  shows "loadImageManagerCache L r (c, fs) =
     (case os_Stat (Join L (imageStateManagerPath c) r) fs of
        Some err \<Rightarrow> Done (if os_IsNotExist err then None else Some err, (c, fs))
      | None \<Rightarrow>
          (case os_ReadFile (Join L (imageStateManagerPath c) r) fs of
             Inl err \<Rightarrow> Done (Some err, (c, fs))
           | Inr byteData \<Rightarrow>
               (case Unmarshal L byteData of
                  Inl err \<Rightarrow> Done (Some err, (c, fs))
                | Inr info \<Rightarrow> Done (None, (c\<lparr>cache := Some (m(r \<mapsto> info))\<rparr>, fs)))))"
  using assms(3,4,1) by (rule load_unlocked)

theorem loadImageManagerCache_resident_witness:
  "loadImageManagerCache example_lib ''img-a'' (example_cache, empty_disk)
     = Done (None, (example_cache, empty_disk))
   \<and> loadImageManagerCache example_lib ''img-a'' (example_cache, bad_disk)
     = Done (Some ErrSyntax, (example_cache, bad_disk))
   \<and> loadImageManagerCache example_lib ''img-a'' (example_cache, good_disk)
     = Done (None, (example_cache\<lparr>cache := Some [''img-a'' \<mapsto> example_info]\<rparr>, good_disk))"
proof -
  have h: "cache example_cache
       = Some [''img-a'' \<mapsto> \<lparr>Auths = [''hash1'' \<mapsto> Some \<lparr>Ensured = True, LastEnsuredDate = 80\<rparr>]\<rparr>]"
    "[''img-a'' \<mapsto> \<lparr>Auths = [''hash1'' \<mapsto> Some \<lparr>Ensured = True, LastEnsuredDate = 80\<rparr>]\<rparr>] ''img-a''
       = Some \<lparr>Auths = [''hash1'' \<mapsto> Some \<lparr>Ensured = True, LastEnsuredDate = 80\<rparr>]\<rparr>"
    "\<not> lock example_cache" "''img-a'' \<noteq> []"
    by (simp_all add: example_cache_def)
  show ?thesis
    using loadImageManagerCache_resident [OF h, of example_lib empty_disk]
      loadImageManagerCache_resident [OF h, of example_lib bad_disk]
      loadImageManagerCache_resident [OF h, of example_lib good_disk]
    by (simp add: example_cache_def example_lib_def empty_disk_def bad_disk_def good_disk_def
          no_failures_def
          os_Stat_def os_ReadFile_def os_IsNotExist_def)
qed

text \<open>
  C7. Claimed: a file that does not decode makes every read through the cache fail with
  the decoding error. \<^verbatim>\<open>getImagePullInfo\<close> and \<^verbatim>\<open>getAuthInfo\<close> have no error result,
  and \<^verbatim>\<open>getImagePullInfo\<close> drops what \<^verbatim>\<open>loadImageManagerCache\<close> returns (line 105). On
  the code they do not even get to the decoding: the file exists, so
  \<^verbatim>\<open>loadImageManagerCache\<close> goes on to take the lock that \<^verbatim>\<open>getImagePullInfo\<close> holds.
\<close>

theorem getImagePullInfo_decode_counterexample:
  "getImagePullInfo example_lib ''img-a'' (example_cache, bad_disk) = Blocked
   \<and> getAuthInfo example_lib ''img-a'' ''hash1'' (example_cache, bad_disk) = Blocked"
proof -
  have "\<not> lock example_cache"
    by (simp add: example_cache_def)
  from getImagePullInfo_unlocked [OF this, of example_lib "''img-a''" bad_disk]
  have "getImagePullInfo example_lib ''img-a'' (example_cache, bad_disk) = Blocked"
    by (simp add: example_cache_def example_lib_def bad_disk_def no_failures_def os_Stat_def)
  then show ?thesis
    by (simp add: getAuthInfo_def)
qed

text \<open>
  C7, amended: a decode failure is surfaced by \<^verbatim>\<open>loadImageManagerCache\<close> and by the
  construction of the cache. For an image reference \<open>r\<close>, not empty, whose file is
  there, reads and does not decode, \<^verbatim>\<open>loadImageManagerCache(r)\<close> called with the lock
  free returns the decoding error and leaves the cache and the disk as they were; and
  \<^verbatim>\<open>newImageManagerCache\<close> returns \<^verbatim>\<open>nil\<close> for every list of image references that
  has \<open>r\<close> in it.
\<close>

theorem loadImageManagerCache_decode_error:
  assumes "r \<noteq> []"
    and "os_Stat (Join L dir r) fs = None"
    and "os_ReadFile (Join L dir r) fs = Inr byteData"
    and "Unmarshal L byteData = Inl err"
  shows "(\<not> lock c \<and> imageStateManagerPath c = dir
            \<longrightarrow> loadImageManagerCache L r (c, fs) = Done (Some err, (c, fs)))
     \<and> (r \<in> set imageRefs \<and> dir = Join L rootDir imageManagerstateFileName
            \<longrightarrow> newImageManagerCache L rootDir imageRefs fs = Done (None, fs))"
proof (intro conjI impI)
  assume "\<not> lock c \<and> imageStateManagerPath c = dir"
  with assms show "loadImageManagerCache L r (c, fs) = Done (Some err, (c, fs))"
    by (simp add: loadImageManagerCache_def Lock_free unlocked_idem)
next
  assume listed: "r \<in> set imageRefs \<and> dir = Join L rootDir imageManagerstateFileName"
  define c0 where "c0 = \<lparr>lock = False, cache = Some Map.empty,
    imageStateManagerPath = Join L rootDir imageManagerstateFileName\<rparr>"
  have "newImageManagerCache_load L imageRefs (c0, fs) = Done (None, fs)"
  proof (rule newImageManagerCache_load_bad)
    show "r \<in> set imageRefs" using listed by simp
    show "r \<noteq> []" by (rule assms(1))
    show "\<not> lock c0" by (simp add: c0_def)
    show "cache c0 = Some Map.empty" by (simp add: c0_def)
    show "os_Stat (Join L (imageStateManagerPath c0) r) fs = None"
      using assms(2) listed by (simp add: c0_def)
    show "os_ReadFile (Join L (imageStateManagerPath c0) r) fs = Inr byteData"
      using assms(3) listed by (simp add: c0_def)
    show "Unmarshal L byteData = Inl err" by (rule assms(4))
  qed
  then show "newImageManagerCache L rootDir imageRefs fs = Done (None, fs)"
    by (simp add: newImageManagerCache_def c0_def)
qed

text \<open>
  The run: the file of \<^verbatim>\<open>img-a\<close> is not JSON, \<^verbatim>\<open>img-b\<close> has no file; the cache is
  built for \<^verbatim>\<open>img-b\<close> and \<^verbatim>\<open>img-a\<close>.
\<close>

theorem loadImageManagerCache_decode_error_witness:
  "os_ReadFile ''/k/image_state_manager/img-a'' bad_disk = Inr ''not json''
   \<and> Unmarshal example_lib ''not json'' = Inl ErrSyntax
   \<and> loadImageManagerCache example_lib ''img-a'' (example_cache, bad_disk)
       = Done (Some ErrSyntax, (example_cache, bad_disk))
   \<and> newImageManagerCache example_lib ''/k'' [''img-b'', ''img-a''] bad_disk = Done (None, bad_disk)"
  using loadImageManagerCache_decode_error
    [of "''img-a''" example_lib "''/k/image_state_manager''" bad_disk "''not json''" ErrSyntax
        example_cache "[''img-b'', ''img-a'']" "''/k''"]
  by (simp add: example_cache_def example_lib_def bad_disk_def no_failures_def
        os_Stat_def os_ReadFile_def imageManagerstateFileName_def)

text \<open>
  C8. Claimed: \<^verbatim>\<open>loadImageManagerCache("")\<close> touches no file, not even with a stat, and
  returns no error; \<^verbatim>\<open>setImagePullInfo("", h, e)\<close> creates no file and returns no
  error. The code stats the path first (line 204) and tests for the empty image
  reference afterwards (line 213): where the stat of the cache directory is refused,
  the call returns that error. \<^verbatim>\<open>setImagePullInfo\<close> never returns.
\<close>

theorem loadImageManagerCache_empty_key_counterexample:
  "loadImageManagerCache example_lib [] (example_cache, no_stat_disk)
     = Done (Some ErrPermission, (example_cache, no_stat_disk))
   \<and> setImagePullInfo example_lib [] ''hash1'' None (example_cache, empty_disk) = Blocked"
  by (simp add: setImagePullInfo_blocks loadImageManagerCache_def os_Stat_def os_IsNotExist_def
        no_stat_disk_def)

text \<open>
  C8, amended: \<^verbatim>\<open>loadImageManagerCache("")\<close> stats the cache directory itself and
  does nothing else: it changes neither the cache nor the disk, returns \<^verbatim>\<open>nil\<close> when
  the stat succeeds or says that the directory does not exist, and returns the error of
  the stat otherwise. The write of \<^verbatim>\<open>storeImageManagerCache\<close> (lines 186 to 199) is
  skipped for the empty image reference: no file is created and \<^verbatim>\<open>nil\<close> is returned.
\<close>

theorem loadImageManagerCache_empty_key:
  "loadImageManagerCache L [] w =
     Done (case os_Stat (Join L (imageStateManagerPath (fst w)) []) (snd w) of
             None \<Rightarrow> None
           | Some err \<Rightarrow> if os_IsNotExist err then None else Some err, w)
   \<and> storeImageManagerCache_write L [] info w = Done (None, w)"
  by (simp add: loadImageManagerCache_def storeImageManagerCache_write_def
        split: option.splits)





end
